theory Spec2Isabelle
  imports Main
begin

section \<open>Python built-ins used by the sources\<close>

text \<open>
  Source texts, paths and messages are Python \<open>str\<close> values, modelled as \<open>string\<close>
  (lists of \<open>char\<close>). A \<open>char\<close> stands for the code point of the same number, so the
  model covers the texts whose code points are below 256; \<open>str.lower\<close>, \<open>str.isspace\<close>
  and the classes of the \<open>re\<close> module are given on all of these code points.
\<close>

text \<open>\<open>range(start, stop, step)\<close> for a positive step.\<close>

function py_range :: "nat \<Rightarrow> nat \<Rightarrow> nat \<Rightarrow> nat list" where
  "py_range i stop step =
     (if 0 < step \<and> i < stop then i # py_range (i + step) stop step else [])"
  by pat_completeness auto
termination
  by (relation "measure (\<lambda>(i, stop, step). stop - i)") auto

declare py_range.simps [simp del]

text \<open>The slice \<open>s[i:j]\<close> for \<open>0 \<le> i \<le> j\<close>; Python clips it at the end of \<open>s\<close>.\<close>

definition slice :: "'a list \<Rightarrow> nat \<Rightarrow> nat \<Rightarrow> 'a list" where
  "slice s i j = take (j - i) (drop i s)"

text \<open>
  \<open>str.lower\<close>: a capital letter, ASCII or from \<open>U+00C0\<close> to \<open>U+00DE\<close>, goes to its
  small letter, any other character stays.
\<close>

definition capital_letters :: string where
  "capital_letters =
     ''ABCDEFGHIJKLMNOPQRSTUVWXYZ'' @
       [CHR 0xC0, CHR 0xC1, CHR 0xC2, CHR 0xC3, CHR 0xC4, CHR 0xC5, CHR 0xC6, CHR 0xC7,
        CHR 0xC8, CHR 0xC9, CHR 0xCA, CHR 0xCB, CHR 0xCC, CHR 0xCD, CHR 0xCE, CHR 0xCF,
        CHR 0xD0, CHR 0xD1, CHR 0xD2, CHR 0xD3, CHR 0xD4, CHR 0xD5, CHR 0xD6, CHR 0xD8,
        CHR 0xD9, CHR 0xDA, CHR 0xDB, CHR 0xDC, CHR 0xDD, CHR 0xDE]"

definition small_letters :: string where
  "small_letters =
     ''abcdefghijklmnopqrstuvwxyz'' @
       [CHR 0xE0, CHR 0xE1, CHR 0xE2, CHR 0xE3, CHR 0xE4, CHR 0xE5, CHR 0xE6, CHR 0xE7,
        CHR 0xE8, CHR 0xE9, CHR 0xEA, CHR 0xEB, CHR 0xEC, CHR 0xED, CHR 0xEE, CHR 0xEF,
        CHR 0xF0, CHR 0xF1, CHR 0xF2, CHR 0xF3, CHR 0xF4, CHR 0xF5, CHR 0xF6, CHR 0xF8,
        CHR 0xF9, CHR 0xFA, CHR 0xFB, CHR 0xFC, CHR 0xFD, CHR 0xFE]"

definition lower_char :: "char \<Rightarrow> char" where
  "lower_char c =
     (case map_of (zip capital_letters small_letters) c of
        None \<Rightarrow> c
      | Some l \<Rightarrow> l)"

definition lower :: "string \<Rightarrow> string" where
  "lower s = map lower_char s"

text \<open>\<open>s.startswith(p)\<close>, \<open>s.endswith(p)\<close> and the substring test \<open>sub in s\<close>.\<close>

fun startswith :: "'a list \<Rightarrow> 'a list \<Rightarrow> bool" where
  "startswith s [] = True"
| "startswith [] (p # ps) = False"
| "startswith (c # s) (p # ps) = (c = p \<and> startswith s ps)"

definition endswith :: "'a list \<Rightarrow> 'a list \<Rightarrow> bool" where
  "endswith s p = startswith (rev s) (rev p)"

fun contains :: "'a list \<Rightarrow> 'a list \<Rightarrow> bool" where
  "contains sub [] = (sub = [])"
| "contains sub (c # s) = (startswith (c # s) sub \<or> contains sub s)"

text \<open>\<open>os.path.basename\<close> (POSIX): what follows the last slash.\<close>

definition basename :: "string \<Rightarrow> string" where
  "basename p = rev (takeWhile (\<lambda>c. c \<noteq> CHR ''/'') (rev p))"

text \<open>\<open>s.split(sep)\<close> for a separator of one character; the result is never empty.\<close>

fun split_on :: "char \<Rightarrow> string \<Rightarrow> string list" where
  "split_on sep [] = [[]]"
| "split_on sep (c # s) =
     (if c = sep then [] # split_on sep s
      else (case split_on sep s of
              [] \<Rightarrow> [[c]]
            | piece # pieces \<Rightarrow> (c # piece) # pieces))"

abbreviation newline :: char where
  "newline \<equiv> CHR 0x0A"

text \<open>
  The characters for which \<open>str.isspace\<close> holds, which \<open>str.strip\<close> removes and which
  \<open>\s\<close> matches.
\<close>

definition is_space :: "char \<Rightarrow> bool" where
  "is_space c \<longleftrightarrow>
     c \<in> set [CHR '' '', CHR 0x09, CHR 0x0A, CHR 0x0B, CHR 0x0C, CHR 0x0D,
               CHR 0x1C, CHR 0x1D, CHR 0x1E, CHR 0x1F, CHR 0x85, CHR 0xA0]"

text \<open>The ranges \<open>a-zA-Z\<close> and \<open>0-9\<close> of a character class.\<close>

definition ascii_letter :: "char \<Rightarrow> bool" where
  "ascii_letter c \<longleftrightarrow> c \<in> set ''abcdefghijklmnopqrstuvwxyzABCDEFGHIJKLMNOPQRSTUVWXYZ''"

definition ascii_digit :: "char \<Rightarrow> bool" where
  "ascii_digit c \<longleftrightarrow> c \<in> set ''0123456789''"

text \<open>
  The characters that \<open>\w\<close> matches in a \<open>str\<close> pattern: the underscore and the
  alphanumeric characters, which are the ASCII letters and digits and, from \<open>U+0080\<close> to
  \<open>U+00FF\<close>, the letters, the superscript digits and the fractions.
\<close>

definition latin1_alphanumeric :: string where
  "latin1_alphanumeric =
       [CHR 0xAA, CHR 0xB2, CHR 0xB3, CHR 0xB5, CHR 0xB9, CHR 0xBA, CHR 0xBC, CHR 0xBD,
        CHR 0xBE, CHR 0xC0, CHR 0xC1, CHR 0xC2, CHR 0xC3, CHR 0xC4, CHR 0xC5, CHR 0xC6,
        CHR 0xC7, CHR 0xC8, CHR 0xC9, CHR 0xCA, CHR 0xCB, CHR 0xCC, CHR 0xCD, CHR 0xCE,
        CHR 0xCF, CHR 0xD0, CHR 0xD1, CHR 0xD2, CHR 0xD3, CHR 0xD4, CHR 0xD5, CHR 0xD6,
        CHR 0xD8, CHR 0xD9, CHR 0xDA, CHR 0xDB, CHR 0xDC, CHR 0xDD, CHR 0xDE, CHR 0xDF,
        CHR 0xE0, CHR 0xE1, CHR 0xE2, CHR 0xE3, CHR 0xE4, CHR 0xE5, CHR 0xE6, CHR 0xE7,
        CHR 0xE8, CHR 0xE9, CHR 0xEA, CHR 0xEB, CHR 0xEC, CHR 0xED, CHR 0xEE, CHR 0xEF,
        CHR 0xF0, CHR 0xF1, CHR 0xF2, CHR 0xF3, CHR 0xF4, CHR 0xF5, CHR 0xF6, CHR 0xF8,
        CHR 0xF9, CHR 0xFA, CHR 0xFB, CHR 0xFC, CHR 0xFD, CHR 0xFE, CHR 0xFF]"

definition is_word :: "char \<Rightarrow> bool" where
  "is_word c \<longleftrightarrow>
     ascii_letter c \<or> ascii_digit c \<or> c = CHR ''_'' \<or> c \<in> set latin1_alphanumeric"

definition strip :: "string \<Rightarrow> string" where
  "strip s = rev (dropWhile is_space (rev (dropWhile is_space s)))"

text \<open>
  \<open>s.replace(old, new)\<close>: the occurrences of \<open>old\<close> are replaced from left to right
  without overlap. The sources call it with a non-empty \<open>old\<close> only; for an empty one the
  model returns \<open>s\<close>.
\<close>

function replace :: "string \<Rightarrow> string \<Rightarrow> string \<Rightarrow> string" where
  "replace old new [] = []"
| "replace old new (c # s) =
     (if old \<noteq> [] \<and> startswith (c # s) old
      then new @ replace old new (drop (length old) (c # s))
      else c # replace old new s)"
  by pat_completeness auto
termination
  by (relation "measure (\<lambda>(old, new, s). length s)") auto

text \<open>\<open>s.split(sep)[0]\<close> and \<open>s.split(sep)[-1]\<close> for a separator of one character.\<close>

definition first_piece :: "char \<Rightarrow> string \<Rightarrow> string" where
  "first_piece sep s = takeWhile (\<lambda>c. c \<noteq> sep) s"

definition last_piece :: "char \<Rightarrow> string \<Rightarrow> string" where
  "last_piece sep s = rev (takeWhile (\<lambda>c. c \<noteq> sep) (rev s))"

section \<open>The regular expressions of the \<open>re\<close> module\<close>

text \<open>
  The patterns of the sources use literals, character classes, greedy and lazy repetition
  of a class, sequence, alternative, greedy option, capture groups, the word boundary
  \<open>\b\<close> and the negative lookahead. \<open>Rep greedy n cls\<close> is \<open>n\<close> or more characters of
  the class: \<open>cls*\<close> and \<open>cls+\<close>, or \<open>cls*?\<close> and \<open>cls+?\<close> when \<open>greedy\<close> is false.
\<close>

datatype re =
    Lit string
  | Cls "char \<Rightarrow> bool"
  | Rep bool nat "char \<Rightarrow> bool"
  | Seq re re
  | Alt re re
  | Opt re
  | Grp nat re
  | Bnd
  | NotAhead re

type_synonym groups = "(nat \<times> string) list"

type_synonym found = "string \<times> groups"

text \<open>
  The ways to cut \<open>s\<close> after a run of characters of a class, shortest first: the text
  taken and the text left.
\<close>

fun cuts :: "(char \<Rightarrow> bool) \<Rightarrow> string \<Rightarrow> (string \<times> string) list" where
  "cuts cls [] = [([], [])]"
| "cuts cls (c # s) =
     ([], c # s) # (if cls c then map (\<lambda>(taken, left). (c # taken, left)) (cuts cls s) else [])"

fun first_some :: "('a \<Rightarrow> 'b option) \<Rightarrow> 'a list \<Rightarrow> 'b option" where
  "first_some k [] = None"
| "first_some k (x # xs) = (case k x of Some r \<Rightarrow> Some r | None \<Rightarrow> first_some k xs)"

text \<open>The character before the position reached after taking \<open>taken\<close>.\<close>

definition last_char :: "char option \<Rightarrow> string \<Rightarrow> char option" where
  "last_char prev taken = (if taken = [] then prev else Some (last taken))"

text \<open>
  Backtracking matching at one position, in the order in which \<open>re\<close> tries the choices.
  \<open>prev\<close> is the character before the position (for \<open>\b\<close>), \<open>s\<close> the text from the
  position on, \<open>g\<close> the groups captured so far, the latest first. The continuation \<open>k\<close>
  receives the text taken, the character before the new position, the text left and the
  groups, and the first choice on which it succeeds is the match.
\<close>

fun rmatch :: "re \<Rightarrow> char option \<Rightarrow> string \<Rightarrow> groups
    \<Rightarrow> (string \<Rightarrow> char option \<Rightarrow> string \<Rightarrow> groups \<Rightarrow> found option) \<Rightarrow> found option" where
  "rmatch (Lit l) prev s g k =
     (if startswith s l then k l (last_char prev l) (drop (length l) s) g else None)"
| "rmatch (Cls cls) prev s g k =
     (case s of [] \<Rightarrow> None | c # s' \<Rightarrow> if cls c then k [c] (Some c) s' g else None)"
| "rmatch (Rep greedy n cls) prev s g k =
     (let choices = drop n (cuts cls s)
      in first_some (\<lambda>(taken, left). k taken (last_char prev taken) left g)
           (if greedy then rev choices else choices))"
| "rmatch (Seq r1 r2) prev s g k =
     rmatch r1 prev s g
       (\<lambda>t1 prev1 s1 g1. rmatch r2 prev1 s1 g1 (\<lambda>t2. k (t1 @ t2)))"
| "rmatch (Alt r1 r2) prev s g k =
     (case rmatch r1 prev s g k of Some f \<Rightarrow> Some f | None \<Rightarrow> rmatch r2 prev s g k)"
| "rmatch (Opt r) prev s g k =
     (case rmatch r prev s g k of Some f \<Rightarrow> Some f | None \<Rightarrow> k [] prev s g)"
| "rmatch (Grp i r) prev s g k =
     rmatch r prev s g (\<lambda>t prev' s' g'. k t prev' s' ((i, t) # g'))"
| "rmatch Bnd prev s g k =
     (if (case prev of None \<Rightarrow> False | Some c \<Rightarrow> is_word c)
         \<noteq> (case s of [] \<Rightarrow> False | c # _ \<Rightarrow> is_word c)
      then k [] prev s g else None)"
| "rmatch (NotAhead r) prev s g k =
     (case rmatch r prev s g (\<lambda>t prev' s' g'. Some (t, g')) of
        Some f \<Rightarrow> None
      | None \<Rightarrow> k [] prev s g)"

text \<open>A match that starts at the position: the matched text and the groups.\<close>

definition match_here :: "re \<Rightarrow> char option \<Rightarrow> string \<Rightarrow> found option" where
  "match_here r prev s = rmatch r prev s [] (\<lambda>t prev' s' g. Some (t, g))"

text \<open>\<open>re.search\<close>: the match at the leftmost position that has one.\<close>

fun search_from :: "re \<Rightarrow> char option \<Rightarrow> string \<Rightarrow> found option" where
  "search_from r prev [] = match_here r prev []"
| "search_from r prev (c # s) =
     (case match_here r prev (c # s) of
        Some f \<Rightarrow> Some f
      | None \<Rightarrow> search_from r (Some c) s)"

definition search :: "re \<Rightarrow> string \<Rightarrow> found option" where
  "search r s = search_from r None s"

text \<open>
  \<open>re.finditer\<close>: the matches from left to right without overlap. \<open>skip\<close> holds the
  characters of the last match that are still to be passed; after an empty match the scan
  moves on by one character.
\<close>

fun finditer_from :: "re \<Rightarrow> char option \<Rightarrow> string \<Rightarrow> string \<Rightarrow> found list" where
  "finditer_from r prev [] skip =
     (if skip = [] then (case match_here r prev [] of Some f \<Rightarrow> [f] | None \<Rightarrow> []) else [])"
| "finditer_from r prev (c # s) (x # skip) = finditer_from r (Some c) s skip"
| "finditer_from r prev (c # s) [] =
     (case match_here r prev (c # s) of
        Some f \<Rightarrow> f # finditer_from r (Some c) s (tl (fst f))
      | None \<Rightarrow> finditer_from r (Some c) s [])"

definition finditer :: "re \<Rightarrow> string \<Rightarrow> found list" where
  "finditer r s = finditer_from r None s []"

text \<open>\<open>match.group(i)\<close> as a list: empty when the group took no part in the match.\<close>

definition group :: "found \<Rightarrow> nat \<Rightarrow> string list" where
  "group f i = (case map_of (snd f) i of None \<Rightarrow> [] | Some t \<Rightarrow> [t])"

text \<open>A sequence of patterns, and the classes \<open>\s+\<close>, \<open>\s*\<close> and \<open>\w+\<close>.\<close>

fun seq :: "re list \<Rightarrow> re" where
  "seq [] = Lit []"
| "seq [r] = r"
| "seq (r # rs) = Seq r (seq rs)"

abbreviation spaces1 :: re where
  "spaces1 \<equiv> Rep True 1 is_space"

abbreviation spaces0 :: re where
  "spaces0 \<equiv> Rep True 0 is_space"

abbreviation word1 :: re where
  "word1 \<equiv> Rep True 1 is_word"

section \<open>Findings (core/analyzers.py)\<close>

text \<open>
  An analyzer returns a dict from keys to strings or lists of strings. \<open>collection\<close>
  reads a list the way the commands do (\<open>if key in analysis\<close>): a missing key gives no
  element.
\<close>

datatype pyval = Str string | Lst "string list"

type_synonym finding = "string \<rightharpoonup> pyval"

definition collection :: "finding \<Rightarrow> string \<Rightarrow> string list" where
  "collection analysis key = (case analysis key of Some (Lst xs) \<Rightarrow> xs | _ \<Rightarrow> [])"

section \<open>The Java analyzer (core/analyzers.py)\<close>

definition access_modifier :: re where
  "access_modifier = Alt (Lit ''public'') (Alt (Lit ''private'') (Lit ''protected''))"

text \<open>\<open>(public|private|protected)\s+(static\s+)?(class|interface)\s+(\w+)\<close>\<close>

definition class_re :: re where
  "class_re =
     seq [Grp 1 access_modifier, spaces1, Opt (Grp 2 (Seq (Lit ''static'') spaces1)),
          Grp 3 (Alt (Lit ''class'') (Lit ''interface'')), spaces1, Grp 4 word1]"

text \<open>\<open>(public|private|protected)\s+(static\s+)?[\w<>]+\s+(\w+)\s*\([^)]*\)\s*\{\<close>\<close>

definition method_re :: re where
  "method_re =
     seq [Grp 1 access_modifier, spaces1, Opt (Grp 2 (Seq (Lit ''static'') spaces1)),
          Rep True 1 (\<lambda>c. is_word c \<or> c = CHR ''<'' \<or> c = CHR ''>''), spaces1,
          Grp 3 word1, spaces0, Lit ''('', Rep True 0 (\<lambda>c. c \<noteq> CHR '')''), Lit '')'',
          spaces0, Lit ''{'']"

text \<open>\<open>public\s+static\s+void\s+main\s*\(String\[\]\s+args\)\<close>\<close>

definition main_re :: re where
  "main_re =
     seq [Lit ''public'', spaces1, Lit ''static'', spaces1, Lit ''void'', spaces1,
          Lit ''main'', spaces0, Lit ''(String[]'', spaces1, Lit ''args)'']"

text \<open>\<open>r'\b' + re.escape(text) + r'\b'\<close>\<close>

definition bounded_literal :: "string \<Rightarrow> re" where
  "bounded_literal text = seq [Bnd, Lit text, Bnd]"

definition java_imports :: "string list \<Rightarrow> string list" where
  "java_imports lines =
     map (\<lambda>line. replace '';'' [] (replace ''import '' [] (strip line)))
       (filter (\<lambda>line. startswith (strip line) ''import '') lines)"

definition java_classes :: "string list \<Rightarrow> string list" where
  "java_classes lines =
     concat (map (\<lambda>line. case search class_re line of None \<Rightarrow> [] | Some f \<Rightarrow> group f 4) lines)"

definition java_methods :: "string list \<Rightarrow> string list" where
  "java_methods lines =
     concat (map (\<lambda>line. case search method_re line of None \<Rightarrow> [] | Some f \<Rightarrow> group f 3) lines)"

text \<open>
  The inner loop over the lines for one method name: \<open>method_referenced\<close> becomes true
  on a line that contains the name, contains the name between a space and an opening
  parenthesis, and does not contain that before its first opening brace.
\<close>

definition method_referenced :: "string \<Rightarrow> string list \<Rightarrow> bool" where
  "method_referenced method_name lines \<longleftrightarrow>
     (\<exists>line\<in>set lines.
        contains method_name line \<and> contains ('' '' @ method_name @ ''('') line
        \<and> \<not> contains ('' '' @ method_name @ ''('') (first_piece CHR ''{'' line))"

text \<open>
  A line is a definition line of a method when the extraction pattern finds the name of
  the method on it.
\<close>

definition definition_line :: "string \<Rightarrow> string \<Rightarrow> bool" where
  "definition_line method_name line \<longleftrightarrow>
     (case search method_re line of
        None \<Rightarrow> False
      | Some f \<Rightarrow> group f 3 = [method_name])"

text \<open>
  \<open>defined_methods\<close> is a set; the order in which the loop visits it is not fixed by the
  language, and the model takes the order of first occurrence.
\<close>

definition java_unused_methods :: "string list \<Rightarrow> string list" where
  "java_unused_methods lines =
     filter (\<lambda>method_name. \<not> method_referenced method_name lines)
       (remdups (java_methods lines))"

definition used_imports_count :: "string list \<Rightarrow> string \<Rightarrow> nat" where
  "used_imports_count imports content =
     length (filter (\<lambda>imp. search (bounded_literal (last_piece CHR ''.'' imp)) content \<noteq> None)
               imports)"

definition unused_imports_advisory :: string where
  "unused_imports_advisory =
     ''Some imports might be unused (manual verification recommended)''"

definition java_unused_imports :: "string list \<Rightarrow> string \<Rightarrow> string list" where
  "java_unused_imports imports content =
     (if used_imports_count imports content < length imports
      then [unused_imports_advisory] else [])"

definition java_potential_issues :: "string \<Rightarrow> string list" where
  "java_potential_issues content =
     (if contains ''System.out.println'' content
      then [''System.out.println statements found (use logging framework like SLF4J)'']
      else [])
     @ (if contains ''catch (Exception e)'' content \<or> contains ''catch (Throwable t)'' content
        then [''Catching generic Exception/Throwable (use specific exceptions for better error handling)'']
        else [])
     @ (if contains ''// TODO'' content \<or> contains ''// FIXME'' content
        then [''TODO/FIXME comments found''] else [])
     @ (if contains ''new File('' content \<and> \<not> contains ''try {'' content
        then [''File operations without try-with-resources or explicit close (resource leak risk)'']
        else [])"

definition java_suggestions :: "string \<Rightarrow> string list \<Rightarrow> string list" where
  "java_suggestions content lines =
     (if search main_re content \<noteq> None \<and> length (java_classes lines) > 1
      then [''Consider refactoring main method into a dedicated entry point class if project grows'']
      else [])
     @ (if length (java_methods lines) > 20
        then [''Consider refactoring this class - it has many methods (High Cohesion, Low Coupling principle)'']
        else [])
     @ (if \<not> (\<exists>line\<in>set lines. contains ''private'' line \<or> contains ''protected'' line)
        then [''Consider using private/protected access modifiers for better encapsulation'']
        else [])
     @ (if contains ''java.util.Date'' content
        then [''Consider using java.time (JSR 310) for modern date/time API instead of java.util.Date'']
        else [])"

definition analyze_java_file :: "string \<Rightarrow> finding" where
  "analyze_java_file content =
     (let lines = split_on newline content
      in map_of
           [(''potential_issues'', Lst (java_potential_issues content)),
            (''suggestions'', Lst (java_suggestions content lines)),
            (''imports'', Lst (java_imports lines)),
            (''classes'', Lst (java_classes lines)),
            (''methods'', Lst (java_methods lines)),
            (''unused_imports'', Lst (java_unused_imports (java_imports lines) content)),
            (''unused_methods'', Lst (java_unused_methods lines))])"

section \<open>The JavaScript/TypeScript analyzer (core/analyzers.py)\<close>

abbreviation declaration_keyword :: re where
  "declaration_keyword \<equiv> Alt (Lit ''const'') (Alt (Lit ''let'') (Lit ''var''))"

text \<open>\<open>.\<close> matches any character except a newline.\<close>

abbreviation lazy_any :: re where
  "lazy_any \<equiv> Rep False 0 (\<lambda>c. c \<noteq> newline)"

text \<open>
  \<open>function\s+(\w+)\s*\(\<close>,
  \<open>(?:const|let|var)\s+(\w+)\s*=\s*(?:function|\(.*?\)\s*=>)\<close> and
  \<open>class\s+\w+\s*\{[^}]*?(\w+)\s*\(.*?\)\s*\{\<close>
\<close>

definition function_patterns :: "re list" where
  "function_patterns =
     [seq [Lit ''function'', spaces1, Grp 1 word1, spaces0, Lit ''(''],
      seq [declaration_keyword, spaces1, Grp 1 word1, spaces0, Lit ''='', spaces0,
           Alt (Lit ''function'') (seq [Lit ''('', lazy_any, Lit '')'', spaces0, Lit ''=>''])],
      seq [Lit ''class'', spaces1, word1, spaces0, Lit ''{'',
           Rep False 0 (\<lambda>c. c \<noteq> CHR ''}''), Grp 1 word1, spaces0,
           Lit ''('', lazy_any, Lit '')'', spaces0, Lit ''{'']]"

text \<open>\<open>(?:const|let|var)\s+([\w,\s]+)\s*=?.*?;\<close> and \<open>this\.(\w+)\s*=\<close>\<close>

definition var_patterns :: "re list" where
  "var_patterns =
     [seq [declaration_keyword, spaces1,
           Grp 1 (Rep True 1 (\<lambda>c. is_word c \<or> c = CHR '','' \<or> is_space c)), spaces0,
           Opt (Lit ''=''), lazy_any, Lit '';''],
      seq [Lit ''this.'', Grp 1 word1, spaces0, Lit ''='']]"

definition js_functions :: "string \<Rightarrow> string list" where
  "js_functions content =
     concat (map (\<lambda>pattern. concat (map (\<lambda>f. group f 1) (finditer pattern content)))
               function_patterns)"

text \<open>\<open>re.findall(r'(\w+)', text)\<close>\<close>

definition words_of :: "string \<Rightarrow> string list" where
  "words_of text = map fst (finditer (Grp 1 word1) text)"

definition js_variables :: "string \<Rightarrow> string list" where
  "js_variables content =
     concat (map (\<lambda>pattern.
                    concat (map (\<lambda>f. concat (map words_of (group f 1)))
                              (finditer pattern content)))
               var_patterns)"

text \<open>\<open>re.findall(r'\b[a-zA-Z_][a-zA-Z0-9_]*\b', content)\<close>\<close>

definition used_names :: "string \<Rightarrow> string set" where
  "used_names content =
     set (map fst (finditer
                     (seq [Bnd, Cls (\<lambda>c. ascii_letter c \<or> c = CHR ''_''),
                           Rep True 0 (\<lambda>c. ascii_letter c \<or> ascii_digit c \<or> c = CHR ''_''),
                           Bnd])
                     content))"

text \<open>
  \<open>re.search(fr'\b{name}\s*\(', content)\<close>: the name is put into the pattern as it is;
  it comes from a group \<open>(\w+)\<close>, so it stands for itself.
\<close>

definition call_re :: "string \<Rightarrow> re" where
  "call_re name = seq [Bnd, Lit name, spaces0, Lit ''('']"

definition js_unused_functions :: "string \<Rightarrow> string list" where
  "js_unused_functions content =
     filter (\<lambda>name. name \<notin> used_names content \<and> search (call_re name) content = None)
       (js_functions content)"

definition js_unused_variables :: "string \<Rightarrow> string list" where
  "js_unused_variables content =
     filter (\<lambda>name. name \<notin> used_names content \<and> name \<notin> set (js_functions content))
       (js_variables content)"

text \<open>
  \<open>(?:private|public)\s+.*?:\s+\S+\s*=\s*new\s+\S+\(\)\<close> and \<open>subscribe\s*\(\<close>
\<close>

definition instantiation_re :: re where
  "instantiation_re =
     seq [Alt (Lit ''private'') (Lit ''public''), spaces1, lazy_any, Lit '':'', spaces1,
          Rep True 1 (\<lambda>c. \<not> is_space c), spaces0, Lit ''='', spaces0, Lit ''new'', spaces1,
          Rep True 1 (\<lambda>c. \<not> is_space c), Lit ''()'']"

definition subscribe_re :: re where
  "subscribe_re = seq [Lit ''subscribe'', spaces0, Lit ''('']"

definition js_potential_issues :: "string \<Rightarrow> string list" where
  "js_potential_issues content =
     (if contains ''console.log'' content \<or> contains ''console.error'' content
           \<or> contains ''console.warn'' content
      then [''Console.log/error/warn statements found (consider removing or using a proper logging library in production)'']
      else [])
     @ (if contains ''eval('' content
        then [''`eval()` usage found (potential security risk and performance implications)'']
        else [])
     @ (if search instantiation_re content \<noteq> None
        then [''Direct instantiation of services/dependencies in components (consider Dependency Injection framework like Angular's or decorators for others)'']
        else [])
     @ (if search subscribe_re content \<noteq> None \<and> \<not> contains ''unsubscribe'' content
        then [''Observable subscriptions without explicit unsubscription (potential memory leak in Angular/RxJS contexts)'']
        else [])"

definition any_suggestion :: string where
  "any_suggestion =
     ''Extensive use of 'any' type in TypeScript (consider more specific types for better type safety)''"

definition js_suggestions :: "string \<Rightarrow> string \<Rightarrow> string list" where
  "js_suggestions content language =
     (if contains ''var '' content
      then [''Consider using 'let' or 'const' instead of 'var' for better block scoping'']
      else [])
     @ (if search (seq [Lit ''=='', NotAhead (Lit ''='')]) content \<noteq> None
        then [''Consider using strict equality (===) instead of (==) to avoid type coercion issues'']
        else [])
     @ (if contains ''any'' content \<and> language = ''typescript'' then [any_suggestion] else [])
     @ (if length (js_functions content) > 30
        then [''Consider refactoring this file - it has too many functions (violates Single Responsibility Principle)'']
        else [])
     @ (if contains ''jQuery'' content \<or> contains ''$('' content
        then [''Consider using modern JavaScript APIs or lighter alternatives instead of jQuery for new development'']
        else [])"

definition analyze_javascript_file :: "string \<Rightarrow> string \<Rightarrow> finding" where
  "analyze_javascript_file content language =
     map_of
       [(''potential_issues'', Lst (js_potential_issues content)),
        (''suggestions'', Lst (js_suggestions content language)),
        (''functions'', Lst (js_functions content)),
        (''variables'', Lst (js_variables content)),
        (''unused_functions'', Lst (js_unused_functions content)),
        (''unused_variables'', Lst (js_unused_variables content))]"

section \<open>The Python analyzer (core/analyzers.py)\<close>

text \<open>
  The syntax tree of the \<open>ast\<close> module, with the node classes that the analyzer tells
  apart; every other node is \<open>Other\<close>. A node carries its child nodes in the order of
  \<open>ast.iter_child_nodes\<close>. Leaves that no test of the analyzer looks at (aliases,
  expression contexts, operators) are not kept as nodes of their own: dropping them leaves
  the order of \<open>ast.walk\<close> on the other nodes as it is.
\<close>

datatype import_alias = Alias (name: string) (asname: "string option")

datatype expr_context = Load | Store | Del

datatype node =
    Import "import_alias list"
  | ImportFrom "string option" "import_alias list"
  | FunctionDef string "node list"
  | ClassDef string "node list"
  | Name string expr_context
  | Call node "node list"
  | Other "node list"

text \<open>The tree that \<open>ast.parse\<close> returns: a module with its \<open>body\<close>.\<close>

datatype module = Module (body: "node list")

fun child_nodes :: "node \<Rightarrow> node list" where
  "child_nodes (Import names) = []"
| "child_nodes (ImportFrom module_name names) = []"
| "child_nodes (FunctionDef n children) = children"
| "child_nodes (ClassDef n children) = children"
| "child_nodes (Name n ctx) = []"
| "child_nodes (Call func arguments) = func # arguments"
| "child_nodes (Other children) = children"

text \<open>\<open>ast.walk\<close>: breadth first, from a queue of nodes still to visit.\<close>

function walk :: "node list \<Rightarrow> node list" where
  "walk [] = []"
| "walk (n # todo) = n # walk (todo @ child_nodes n)"
  by pat_completeness auto
termination
proof (relation "measure (size_list size)")
  show "wf (measure (size_list size))" by simp
next
  fix n :: node and todo :: "node list"
  have "size_list size (child_nodes n) \<le> size n"
    by (cases n) simp_all
  then show "(todo @ child_nodes n, n # todo) \<in> measure (size_list size)"
    by simp
qed

text \<open>\<open>alias.asname if alias.asname else alias.name\<close>\<close>

definition alias_name :: "import_alias \<Rightarrow> string" where
  "alias_name a = (case asname a of None \<Rightarrow> name a | Some n \<Rightarrow> if n = [] then name a else n)"

fun import_names :: "node \<Rightarrow> string list" where
  "import_names (Import names) = map alias_name names"
| "import_names (ImportFrom module_name names) =
     (if module_name \<noteq> None \<and> module_name \<noteq> Some [] then map alias_name names else [])"
| "import_names n = []"

fun function_names :: "node \<Rightarrow> string list" where
  "function_names (FunctionDef n children) = [n]"
| "function_names n = []"

fun class_names :: "node \<Rightarrow> string list" where
  "class_names (ClassDef n children) = [n]"
| "class_names n = []"

fun name_ids :: "node \<Rightarrow> string list" where
  "name_ids (Name n ctx) = [n]"
| "name_ids n = []"

text \<open>The second loop: the callee of a call when it is a name, and every name that is read.\<close>

fun referenced_names :: "node \<Rightarrow> string list" where
  "referenced_names (Call (Name n ctx) arguments) = [n]"
| "referenced_names (Call func arguments) = []"
| "referenced_names (Name n Load) = [n]"
| "referenced_names n = []"

definition py_potential_issues :: "string \<Rightarrow> string list" where
  "py_potential_issues content =
     (if contains ''print('' content then [''Debug print statements found''] else [])
     @ (if contains ''TODO'' content \<or> contains ''FIXME'' content
        then [''TODO/FIXME comments found''] else [])
     @ (if contains ''except:'' content
        then [''Bare except clauses found (use specific exceptions)''] else [])"

definition py_suggestions :: "string list \<Rightarrow> string \<Rightarrow> string list" where
  "py_suggestions functions content =
     (if length functions > 50
      then [''Consider splitting this file - it has many functions''] else [])
     @ (if \<exists>line\<in>set (split_on newline content). length line > 100
        then [''Some lines are too long (>100 characters)''] else [])"

text \<open>
  The body of the \<open>try\<close> block once the source is parsed. \<open>defined_functions\<close> is a set;
  the order in which it is visited is not fixed by the language, and the model takes the
  order of first occurrence.
\<close>

definition python_analysis :: "module \<Rightarrow> string \<Rightarrow> finding" where
  "python_analysis tree content =
     (let nodes = walk (body tree);
          imports = concat (map import_names nodes);
          functions = concat (map function_names nodes);
          classes = concat (map class_names nodes);
          used = set (concat (map name_ids nodes));
          defined_functions = remdups (concat (map function_names (body tree)));
          all_referenced_names = set (concat (map referenced_names nodes))
      in map_of
           [(''imports'', Lst imports),
            (''functions'', Lst functions),
            (''classes'', Lst classes),
            (''variables'', Lst []),
            (''unused_imports'', Lst (filter (\<lambda>n. n \<notin> used) imports)),
            (''unused_functions'',
               Lst (filter (\<lambda>func_name. func_name \<notin> all_referenced_names
                                          \<and> func_name \<notin> set classes)
                      defined_functions)),
            (''unused_variables'', Lst []),
            (''potential_issues'', Lst (py_potential_issues content)),
            (''suggestions'', Lst (py_suggestions functions content))])"

text \<open>What the \<open>except Exception as e\<close> clause returns, from \<open>str(e)\<close>.\<close>

definition parse_error_finding :: "string \<Rightarrow> finding" where
  "parse_error_finding message =
     map_of [(''error'', Str message),
             (''potential_issues'', Lst [''Parsing error: '' @ message])]"

text \<open>
  \<open>ast.parse\<close> belongs to the Python library and is a parameter \<open>parse\<close>: it returns the
  tree, or \<open>Inl\<close> the text \<open>str(e)\<close> of the exception it raises (a \<open>SyntaxError\<close>, or a
  \<open>ValueError\<close>, \<open>RecursionError\<close> or \<open>MemoryError\<close>, all of class \<open>Exception\<close>).

  \<open>python_try\<close> is the \<open>try\<close> block, \<open>Inl\<close> when an exception leaves it;
  \<open>analyze_python_file\<close> is the whole function, \<open>Inl\<close> when an exception leaves the
  function and \<open>Inr\<close> the dict it returns.
\<close>

definition python_try :: "(string \<Rightarrow> string + module) \<Rightarrow> string \<Rightarrow> string + finding" where
  "python_try parse content =
     (case parse content of
        Inl e \<Rightarrow> Inl e
      | Inr tree \<Rightarrow> Inr (python_analysis tree content))"

definition analyze_python_file :: "(string \<Rightarrow> string + module) \<Rightarrow> string \<Rightarrow> string + finding" where
  "analyze_python_file parse content =
     (case python_try parse content of
        Inl e \<Rightarrow> Inr (parse_error_finding e)
      | Inr analysis \<Rightarrow> Inr analysis)"

section \<open>The analysis commands (cogs/analysis\_cog.py)\<close>

text \<open>\<open>self.supported_extensions\<close> of the code analyzer.\<close>

definition supported_extensions :: "(string \<times> string) list" where
  "supported_extensions =
     [(''.py'', ''python''), (''.js'', ''javascript''), (''.ts'', ''typescript''),
      (''.jsx'', ''javascript''), (''.tsx'', ''typescript''), (''.java'', ''java''),
      (''.cpp'', ''cpp''), (''.c'', ''c''), (''.cs'', ''csharp''), (''.go'', ''go''),
      (''.rs'', ''rust''), (''.php'', ''php''), (''.rb'', ''ruby''), (''.swift'', ''swift''),
      (''.kt'', ''kotlin''), (''.scala'', ''scala''), (''.html'', ''html''), (''.css'', ''css''),
      (''.scss'', ''scss''), (''.sql'', ''sql'')]"

text \<open>
  The choice of the analyzer by extension, written alike in \<open>analyze_repo\<close> and in
  \<open>upload\<close>: \<open>analyze_javascript_file\<close> is called with the content alone, so its
  parameter \<open>language\<close> has its default \<open>'javascript'\<close>.
\<close>

definition analysis_for :: "(string \<Rightarrow> string + module) \<Rightarrow> string \<Rightarrow> string \<Rightarrow> string
    \<Rightarrow> string + finding" where
  "analysis_for parse file_ext language content =
     (if file_ext = ''.py'' then analyze_python_file parse content
      else if file_ext = ''.java'' then Inr (analyze_java_file content)
      else if file_ext \<in> set [''.js'', ''.ts'', ''.jsx'', ''.tsx'']
        then Inr (analyze_javascript_file content ''javascript'')
      else Inr (map_of [(''info'', Str (''Basic analysis for '' @ language))]))"

text \<open>
  The body of the second loop of \<open>analyze_repo\<close> for one file. \<open>file_ext\<close> is the value
  that the first loop left in the variable; a missing key raises \<open>KeyError\<close>, which the
  \<open>except\<close> clause of the loop logs, and no analysis is recorded (\<open>Inl\<close>).
\<close>

definition analyze_repo_file :: "(string \<Rightarrow> string + module) \<Rightarrow> string \<Rightarrow> string
    \<Rightarrow> string + finding" where
  "analyze_repo_file parse file_ext file_content =
     (case map_of supported_extensions file_ext of
        None \<Rightarrow> Inl file_ext
      | Some language \<Rightarrow> analysis_for parse file_ext language file_content)"

text \<open>
  The analysis of the \<open>upload\<close> command for an attachment with extension \<open>file_ext\<close>;
  an extension that is not supported is refused with a message (\<open>Inl\<close>).
\<close>

definition upload_analysis :: "(string \<Rightarrow> string + module) \<Rightarrow> string \<Rightarrow> string
    \<Rightarrow> string + finding" where
  "upload_analysis parse file_ext content_str =
     (if file_ext \<notin> set (map fst supported_extensions)
      then Inl (''Unsupported file type: '' @ file_ext)
      else (case map_of supported_extensions file_ext of
              None \<Rightarrow> Inl file_ext
            | Some language \<Rightarrow> analysis_for parse file_ext language content_str))"

section \<open>Chunking of long responses (cogs/analysis\_cog.py, cogs/general\_cog.py)\<close>

definition max_length :: nat where
  "max_length = 2000"

text \<open>\<open>chunks = [review[i:i+max_length] for i in range(0, len(review), max_length)]\<close>\<close>

definition chunks :: "'a list \<Rightarrow> 'a list list" where
  "chunks review =
     map (\<lambda>i. slice review i (i + max_length)) (py_range 0 (length review) max_length)"

text \<open>
  The descriptions of the embeds that \<open>ai_review\<close> and \<open>chat_with_ai\<close> send, in order:
  the chunks when the response is longer than \<open>max_length\<close>, the response itself otherwise.
\<close>

definition sent_descriptions :: "'a list \<Rightarrow> 'a list list" where
  "sent_descriptions response =
     (if length response > max_length then chunks response else [response])"

section \<open>Framework detection and structure analysis (core/analyzers.py)\<close>

text \<open>An entry of a repository listing: \<open>content.path\<close> and \<open>content.type\<close>.\<close>

record content =
  path :: string
  type :: string

text \<open>\<open>self.framework_patterns\<close>, in the insertion order of the dict.\<close>

definition framework_patterns :: "(string \<times> string list) list" where
  "framework_patterns =
    [(''React'', [''package.json'', ''src/App.js'', ''src/index.js'', ''public/index.html'']),
     (''Vue'', [''package.json'', ''src/main.js'', ''src/App.vue'']),
     (''Angular'', [''angular.json'', ''src/main.ts'', ''src/app/app.module.ts'',
                    ''src/index.html'', ''src/app/'']),
     (''Django'', [''manage.py'', ''settings.py'', ''urls.py'', ''wsgi.py'']),
     (''Flask'', [''app.py'', ''requirements.txt'', ''templates/'']),
     (''Spring Boot'', [''pom.xml'', ''src/main/java/'', ''application.properties'']),
     (''Express.js'', [''package.json'', ''app.js'', ''server.js'']),
     (''Next.js'', [''next.config.js'', ''pages/'', ''package.json'']),
     (''Laravel'', [''composer.json'', ''artisan'', ''app/Http/Controllers/'']),
     (''Rails'', [''Gemfile'', ''config/routes.rb'', ''app/controllers/'']),
     (''FastAPI'', [''main.py'', ''requirements.txt'', ''app/'']),
     (''Nest.js'', [''nest-cli.json'', ''src/main.ts'', ''src/app.module.ts''])]"

text \<open>\<open>self.structure_recommendations\<close>: the \<open>recommended\<close> paths of each entry.\<close>

definition structure_recommendations :: "(string \<times> string list) list" where
  "structure_recommendations =
    [(''React'', [''src/components/'', ''src/hooks/'', ''src/utils/'', ''src/services/'',
                  ''src/assets/'']),
     (''Django'', [''apps/'', ''static/'', ''templates/'', ''media/'', ''requirements.txt'']),
     (''Spring Boot'', [''src/main/java/com/company/app/'', ''src/main/resources/'',
                        ''src/test/'']),
     (''Express.js'', [''routes/'', ''middleware/'', ''models/'', ''controllers/'', ''config/'']),
     (''Angular'', [''src/app/components/'', ''src/app/services/'', ''src/app/models/'',
                    ''src/app/shared/'', ''src/environments/''])]"

text \<open>
  \<open>all_paths\<close>: the lower-cased path of every file, and the lower-cased path followed by
  a slash of every other entry.
\<close>

definition all_paths :: "content list \<Rightarrow> string set" where
  "all_paths repo_contents =
     (\<lambda>c. if type c = ''file'' then lower (path c) else lower (path c) @ ''/'')
       ` set repo_contents"

definition normalized_pattern :: "string \<Rightarrow> string" where
  "normalized_pattern pattern =
     (let np = lower pattern
      in if \<not> endswith np ''/'' \<and> CHR ''.'' \<notin> set (basename np) then np @ ''/'' else np)"

text \<open>The value of \<open>matches\<close> after the inner loop over the patterns of one framework.\<close>

definition matches :: "string list \<Rightarrow> string set \<Rightarrow> nat" where
  "matches patterns paths =
     length (filter (\<lambda>pattern. \<exists>p\<in>paths. contains (normalized_pattern pattern) p) patterns)"

text \<open>The outer loop over the table: \<open>continue\<close> and a failed threshold go to the next entry.\<close>

fun detect_loop :: "(string \<times> string list) list \<Rightarrow> string set \<Rightarrow> string option" where
  "detect_loop [] paths = None"
| "detect_loop ((framework, patterns) # rest) paths =
     (if matches patterns paths \<ge> 2 then
        (if framework = ''Angular'' \<and> ''angular.json'' \<notin> paths
         then detect_loop rest paths
         else Some framework)
      else detect_loop rest paths)"

definition detect_framework :: "content list \<Rightarrow> string option" where
  "detect_framework repo_contents = detect_loop framework_patterns (all_paths repo_contents)"

text \<open>The dict returned by \<open>analyze_structure\<close>; its five keys are always present.\<close>

record structure_report =
  framework :: "string option"
  files :: "string list"
  directories :: "string list"
  issues :: "string list"
  recommendations :: "string list"

text \<open>
  The recommendation branch: taken when \<open>framework\<close> is truthy (neither \<open>None\<close> nor the
  empty string) and a key of \<open>structure_recommendations\<close>.
\<close>

definition recommend :: "string option \<Rightarrow> string list \<Rightarrow> string list" where
  "recommend fw existing =
     (case fw of
        None \<Rightarrow> []
      | Some f \<Rightarrow>
          if f = [] then []
          else (case map_of structure_recommendations f of
                  None \<Rightarrow> []
                | Some recommended \<Rightarrow>
                    map (\<lambda>recommended_path.
                           ''Consider adding '' @ recommended_path @ '' for '' @ f
                             @ '' best practices.'')
                      (filter (\<lambda>recommended_path.
                                 \<not> (\<exists>p\<in>set existing. contains (lower recommended_path) p))
                         recommended)))"

definition analyze_structure :: "content list \<Rightarrow> string option \<Rightarrow> structure_report" where
  "analyze_structure repo_contents fw =
     (let fs = map path (filter (\<lambda>c. type c = ''file'') repo_contents);
          ds = map path (filter (\<lambda>c. type c \<noteq> ''file'') repo_contents);
          all_file_paths = map lower fs;
          all_dir_paths = map lower ds
      in \<lparr> framework = fw,
           files = fs,
           directories = ds,
           issues =
             (if ''readme.md'' \<notin> set all_file_paths then [''Missing README.md file''] else [])
             @ (if ''.gitignore'' \<notin> set all_file_paths then [''Missing .gitignore file''] else []),
           recommendations = recommend fw (all_file_paths @ all_dir_paths) \<rparr>)"

text \<open>
  The structure report of the \<open>analyze_repo\<close> command (cogs/analysis\_cog.py):
  \<open>analyze_structure\<close> is called with the listing alone, then the detected framework, when
  truthy, is stored under the key \<open>framework\<close>.
\<close>

definition analyze_repo_structure :: "content list \<Rightarrow> structure_report" where
  "analyze_repo_structure all_repo_contents =
     (let report = analyze_structure all_repo_contents None;
          fw = detect_framework all_repo_contents
      in if fw \<noteq> None \<and> fw \<noteq> Some [] then report\<lparr>framework := fw\<rparr> else report)"

section \<open>Auxiliary notions for the framework properties\<close>

text \<open>
  An entry of the table qualifies on a path set when it passes both tests of the loop body:
  the threshold of two matching patterns and, for Angular, the presence of
  \<open>angular.json\<close> in \<open>all_paths\<close>.
\<close>

definition qualifies :: "string \<times> string list \<Rightarrow> string set \<Rightarrow> bool" where
  "qualifies entry paths =
     (matches (snd entry) paths \<ge> 2
      \<and> (fst entry = ''Angular'' \<longrightarrow> ''angular.json'' \<in> paths))"

text \<open>
  The table with every pattern normalised once, and the loop of \<open>detect_framework\<close> on it;
  they serve to evaluate \<open>detect_framework\<close> on concrete listings.
\<close>

definition normalized_patterns :: "(string \<times> string list) list" where
  "normalized_patterns = map (\<lambda>(f, ps). (f, map normalized_pattern ps)) framework_patterns"

fun detect_normalized :: "(string \<times> string list) list \<Rightarrow> string set \<Rightarrow> string option" where
  "detect_normalized [] paths = None"
| "detect_normalized ((f, nps) # rest) paths =
     (if length (filter (\<lambda>np. \<exists>p\<in>paths. contains np p) nps) \<ge> 2
         \<and> (f = ''Angular'' \<longrightarrow> ''angular.json'' \<in> paths)
      then Some f else detect_normalized rest paths)"

text \<open>Concrete repository listings.\<close>

definition react_vue_listing :: "content list" where
  "react_vue_listing =
     [\<lparr>path = ''package.json'', type = ''file''\<rparr>,
      \<lparr>path = ''src/App.js'', type = ''file''\<rparr>,
      \<lparr>path = ''src/main.js'', type = ''file''\<rparr>]"

definition angular_nest_listing :: "content list" where
  "angular_nest_listing =
     [\<lparr>path = ''src/main.ts'', type = ''file''\<rparr>,
      \<lparr>path = ''src/app/app.module.ts'', type = ''file''\<rparr>,
      \<lparr>path = ''nest-cli.json'', type = ''file''\<rparr>]"

definition capital_angular_listing :: "content list" where
  "capital_angular_listing =
     [\<lparr>path = ''Angular.json'', type = ''file''\<rparr>,
      \<lparr>path = ''src/main.ts'', type = ''file''\<rparr>]"

definition nest_listing :: "content list" where
  "nest_listing =
     [\<lparr>path = ''src/app.module.ts'', type = ''file''\<rparr>,
      \<lparr>path = ''src/main.ts'', type = ''file''\<rparr>]"

section \<open>Auxiliary notions for the analyzer properties\<close>

text \<open>The nine keys of the dict that \<open>analyze_python_file\<close> builds after parsing.\<close>

definition python_keys :: "string list" where
  "python_keys =
     [''imports'', ''functions'', ''classes'', ''variables'', ''unused_imports'',
      ''unused_functions'', ''unused_variables'', ''potential_issues'', ''suggestions'']"

text \<open>
  Concrete inputs. \<open>foo_module\<close> is the tree of \<open>foo_source\<close>: one function definition,
  whose child nodes are its (empty) \<open>arguments\<close> node and the \<open>pass\<close> statement.
  \<open>unbalanced_source\<close> has an open parenthesis; \<open>deep_source\<close> is 6000 minus signs
  before a digit.
\<close>

definition foo_source :: string where
  "foo_source = ''def foo():'' @ [newline] @ ''    pass'' @ [newline]"

definition foo_module :: module where
  "foo_module = Module [FunctionDef ''foo'' [Other [], Other []]]"

definition unbalanced_source :: string where
  "unbalanced_source = ''def foo(''"

definition never_closed_message :: string where
  "never_closed_message =
     [CHR 0x27] @ ''('' @ [CHR 0x27] @ '' was never closed (<unknown>, line 1)''"

definition deep_source :: string where
  "deep_source = replicate 6000 CHR ''-'' @ ''1''"

text \<open>
  \<open>sample_parse\<close> is what \<open>ast.parse\<close> of CPython 3.11 does on these three texts: it
  returns the tree of \<open>foo_source\<close>; on \<open>unbalanced_source\<close> it raises a \<open>SyntaxError\<close>
  whose text is \<open>never_closed_message\<close>; on \<open>deep_source\<close> it raises a \<open>MemoryError\<close>,
  whose text is empty. Every other text is rejected.
\<close>

definition sample_parse :: "string \<Rightarrow> string + module" where
  "sample_parse content =
     (if content = foo_source then Inr foo_module
      else if content = unbalanced_source then Inl never_closed_message
      else if content = deep_source then Inl []
      else Inl ''invalid syntax (<unknown>, line 1)'')"

definition wildcard_source :: string where
  "wildcard_source = ''import java.util.*;''"

definition this_call_source :: string where
  "this_call_source =
     ''public void foo() {'' @ [newline] @ ''}'' @ [newline] @
     ''public void bar() {'' @ [newline] @ ''    this.foo();'' @ [newline] @ ''}''"

definition braced_call_source :: string where
  "braced_call_source =
     ''public void foo() {'' @ [newline] @ ''}'' @ [newline] @
     ''public void bar() {'' @ [newline] @ ''    if (x) { foo(); }'' @ [newline] @ ''}''"

definition any_source :: string where
  "any_source = ''let x: any = 1;''"

section \<open>Properties of the chunking\<close>

lemma concat_slices_from:
  "0 < n \<Longrightarrow>
   concat (map (\<lambda>i. slice s i (i + n)) (py_range i (length s) n)) = drop i s"
proof (induction i "length s" n rule: py_range.induct)
  case (1 i step)
  show ?case
  proof (cases "i < length s")
    case True
    have "drop (i + step) s = drop step (drop i s)"
      by (simp add: add.commute)
    then have "drop i s = take step (drop i s) @ drop (i + step) s"
      by (simp only: append_take_drop_id)
    with 1 True show ?thesis
      by (subst py_range.simps) (simp add: slice_def)
  next
    case False
    then show ?thesis
      by (subst py_range.simps) simp
  qed
qed

text \<open>
  C8. Splitting a response into consecutive chunks of 2000 characters and concatenating
  the chunks in order gives back the response, and so does concatenating what the two
  commands send (the chunks of a long response, or the response itself).
\<close>

theorem chunks_lossless:
  "concat (chunks response) = response \<and> concat (sent_descriptions response) = response"
  using concat_slices_from [of max_length response 0]
  by (simp add: chunks_def sent_descriptions_def max_length_def)

section \<open>Properties of framework detection\<close>

lemma detect_loop_find:
  "detect_loop table paths = map_option fst (find (\<lambda>entry. qualifies entry paths) table)"
  by (induction table paths rule: detect_loop.induct) (auto simp: qualifies_def)

lemma framework_names_distinct: "distinct (map fst framework_patterns)"
  by (simp add: framework_patterns_def)

lemma all_paths_file_iff:
  "''angular.json'' \<in> all_paths repo_contents \<longleftrightarrow>
   (\<exists>c\<in>set repo_contents. type c = ''file'' \<and> lower (path c) = ''angular.json'')"
proof -
  have "lower (path c) @ ''/'' \<noteq> ''angular.json''" for c :: content
  proof
    assume "lower (path c) @ ''/'' = ''angular.json''"
    then have "last (lower (path c) @ ''/'') = last ''angular.json''" by simp
    then show False by simp
  qed
  then have "(if type c = ''file'' then lower (path c) else lower (path c) @ ''/'') = ''angular.json''
         \<longleftrightarrow> type c = ''file'' \<and> lower (path c) = ''angular.json''" for c :: content
    by simp
  then show ?thesis
    unfolding all_paths_def image_iff by (metis (no_types, lifting))
qed

lemma find_first_le:
  assumes "i < length xs" "P (xs ! i)"
  shows "\<exists>k\<le>i. find P xs = Some (xs ! k)"
proof -
  from assms have "find P xs \<noteq> None"
    by (metis find_None_iff nth_mem)
  then obtain x where x: "find P xs = Some x" by auto
  then obtain k where k: "k < length xs" "x = xs ! k" "\<forall>j<k. \<not> P (xs ! j)"
    by (auto simp: find_Some_iff)
  with assms have "k \<le> i" by (meson not_le)
  with x k show ?thesis by auto
qed

text \<open>
  C5 (amended). \<open>detect_framework\<close> depends only on the set of listing entries, and it
  returns the first entry of the table, in declaration order, that qualifies: at least two
  of its patterns match and, if it is Angular, \<open>angular.json\<close> is among the lower-cased
  file paths. Hence when two frameworks qualify, the result is the earlier one or a
  qualifying framework before it, and never the later one.
\<close>

theorem detect_framework_first_qualifying:
  "(set repo_contents = set repo_contents'
      \<longrightarrow> detect_framework repo_contents = detect_framework repo_contents')
   \<and> detect_framework repo_contents =
       map_option fst (find (\<lambda>entry. qualifies entry (all_paths repo_contents)) framework_patterns)
   \<and> (i < j \<and> j < length framework_patterns
        \<and> qualifies (framework_patterns ! i) (all_paths repo_contents)
        \<and> qualifies (framework_patterns ! j) (all_paths repo_contents)
      \<longrightarrow> (\<exists>k\<le>i. detect_framework repo_contents = Some (fst (framework_patterns ! k)))
          \<and> detect_framework repo_contents \<noteq> Some (fst (framework_patterns ! j)))"
proof (intro conjI impI)
  assume "set repo_contents = set repo_contents'"
  then show "detect_framework repo_contents = detect_framework repo_contents'"
    by (simp add: detect_framework_def all_paths_def)
next
  show "detect_framework repo_contents =
        map_option fst (find (\<lambda>entry. qualifies entry (all_paths repo_contents)) framework_patterns)"
    by (simp add: detect_framework_def detect_loop_find)
next
  assume a: "i < j \<and> j < length framework_patterns
        \<and> qualifies (framework_patterns ! i) (all_paths repo_contents)
        \<and> qualifies (framework_patterns ! j) (all_paths repo_contents)"
  then obtain k where k: "k \<le> i"
    "find (\<lambda>entry. qualifies entry (all_paths repo_contents)) framework_patterns
       = Some (framework_patterns ! k)"
    using find_first_le [of i framework_patterns "\<lambda>entry. qualifies entry (all_paths repo_contents)"]
    by auto
  then have r: "detect_framework repo_contents = Some (fst (framework_patterns ! k))"
    by (simp add: detect_framework_def detect_loop_find)
  with k show "\<exists>k\<le>i. detect_framework repo_contents = Some (fst (framework_patterns ! k))"
    by blast
  from a k have "k < length (map fst framework_patterns)" "j < length (map fst framework_patterns)" "k \<noteq> j"
    by auto
  then have "map fst framework_patterns ! k \<noteq> map fst framework_patterns ! j"
    using framework_names_distinct nth_eq_iff_index_eq by blast
  moreover from a k have "map fst framework_patterns ! k = fst (framework_patterns ! k)"
    "map fst framework_patterns ! j = fst (framework_patterns ! j)"
    by simp_all
  ultimately have "fst (framework_patterns ! k) \<noteq> fst (framework_patterns ! j)"
    by simp
  with r show "detect_framework repo_contents \<noteq> Some (fst (framework_patterns ! j))"
    by simp
qed

lemma detect_loop_normalized:
  "detect_loop table paths
     = detect_normalized (map (\<lambda>(f, ps). (f, map normalized_pattern ps)) table) paths"
  by (induction table paths rule: detect_loop.induct)
     (simp_all add: matches_def filter_map comp_def)

lemma normalized_patterns_code [code]: "normalized_patterns =
    [(''React'', [''package.json'', ''src/app.js'', ''src/index.js'', ''public/index.html'']),
     (''Vue'', [''package.json'', ''src/main.js'', ''src/app.vue'']),
     (''Angular'', [''angular.json'', ''src/main.ts'', ''src/app/app.module.ts'',
                    ''src/index.html'', ''src/app/'']),
     (''Django'', [''manage.py'', ''settings.py'', ''urls.py'', ''wsgi.py'']),
     (''Flask'', [''app.py'', ''requirements.txt'', ''templates/'']),
     (''Spring Boot'', [''pom.xml'', ''src/main/java/'', ''application.properties'']),
     (''Express.js'', [''package.json'', ''app.js'', ''server.js'']),
     (''Next.js'', [''next.config.js'', ''pages/'', ''package.json'']),
     (''Laravel'', [''composer.json'', ''artisan/'', ''app/http/controllers/'']),
     (''Rails'', [''gemfile/'', ''config/routes.rb'', ''app/controllers/'']),
     (''FastAPI'', [''main.py'', ''requirements.txt'', ''app/'']),
     (''Nest.js'', [''nest-cli.json'', ''src/main.ts'', ''src/app.module.ts''])]"
  by code_simp
lemma detect_framework_code [code]:
  "detect_framework repo_contents = detect_normalized normalized_patterns (all_paths repo_contents)"
  by (simp add: detect_framework_def detect_loop_normalized normalized_patterns_def)
lemma react_vue_qualify:
  "qualifies (framework_patterns ! 0) (all_paths react_vue_listing)
   \<and> qualifies (framework_patterns ! 1) (all_paths react_vue_listing)"
  by code_simp

theorem detect_framework_first_qualifying_witness:
  "set react_vue_listing = set (rev react_vue_listing)
   \<and> detect_framework react_vue_listing = detect_framework (rev react_vue_listing)
   \<and> (0::nat) < 1 \<and> 1 < length framework_patterns
   \<and> qualifies (framework_patterns ! 0) (all_paths react_vue_listing)
   \<and> qualifies (framework_patterns ! 1) (all_paths react_vue_listing)
   \<and> detect_framework react_vue_listing = Some ''React''
   \<and> detect_framework react_vue_listing \<noteq> Some ''Vue''"
proof -
  note t = detect_framework_first_qualifying
             [of react_vue_listing "rev react_vue_listing" 0 1]
  have s: "set react_vue_listing = set (rev react_vue_listing)" by simp
  have l: "(0::nat) < 1 \<and> 1 < length framework_patterns"
    by (simp add: framework_patterns_def)
  from t s have d: "detect_framework react_vue_listing = detect_framework (rev react_vue_listing)"
    by blast
  from t l react_vue_qualify
  have "(\<exists>k\<le>0. detect_framework react_vue_listing = Some (fst (framework_patterns ! k)))
        \<and> detect_framework react_vue_listing \<noteq> Some (fst (framework_patterns ! 1))"
    by blast
  then have "detect_framework react_vue_listing = Some ''React''
        \<and> detect_framework react_vue_listing \<noteq> Some ''Vue''"
    by (simp add: framework_patterns_def)
  with s d l react_vue_qualify show ?thesis by blast
qed

text \<open>
  C5 as stated fails: on the listing \<open>src/main.ts\<close>, \<open>src/app/app.module.ts\<close>,
  \<open>nest-cli.json\<close> three Angular patterns and two Nest.js patterns match, and the later
  framework, Nest.js, is returned, because Angular is skipped without \<open>angular.json\<close>.
\<close>

theorem later_framework_returned_counterexample:
  "fst (framework_patterns ! 2) = ''Angular'' \<and> fst (framework_patterns ! 11) = ''Nest.js''
   \<and> matches (snd (framework_patterns ! 2)) (all_paths angular_nest_listing) \<ge> 2
   \<and> matches (snd (framework_patterns ! 11)) (all_paths angular_nest_listing) \<ge> 2
   \<and> detect_framework angular_nest_listing = Some ''Nest.js''"
  by code_simp


text \<open>
  C6 (amended). When the listing has no file whose lower-cased path is \<open>angular.json\<close>,
  \<open>detect_framework\<close> never returns Angular; on the listing \<open>src/app.module.ts\<close>,
  \<open>src/main.ts\<close> the evaluation goes on to the later entries and returns Nest.js.
\<close>

theorem angular_needs_angular_json:
  "(\<not> (\<exists>c\<in>set repo_contents. type c = ''file'' \<and> lower (path c) = ''angular.json'')
      \<longrightarrow> detect_framework repo_contents \<noteq> Some ''Angular'')
   \<and> detect_framework nest_listing = Some ''Nest.js''"
proof (intro conjI impI)
  assume a: "\<not> (\<exists>c\<in>set repo_contents. type c = ''file'' \<and> lower (path c) = ''angular.json'')"
  show "detect_framework repo_contents \<noteq> Some ''Angular''"
  proof
    assume "detect_framework repo_contents = Some ''Angular''"
    then obtain entry where
      "find (\<lambda>entry. qualifies entry (all_paths repo_contents)) framework_patterns = Some entry"
      "fst entry = ''Angular''"
      by (auto simp: detect_framework_def detect_loop_find)
    then have "qualifies entry (all_paths repo_contents)" "fst entry = ''Angular''"
      by (auto simp: find_Some_iff)
    then have "''angular.json'' \<in> all_paths repo_contents"
      by (simp add: qualifies_def)
    with a show False
      by (auto simp: all_paths_file_iff)
  qed
next
  show "detect_framework nest_listing = Some ''Nest.js''"
    by code_simp
qed

theorem angular_needs_angular_json_witness:
  "\<not> (\<exists>c\<in>set nest_listing. type c = ''file'' \<and> lower (path c) = ''angular.json'')
   \<and> detect_framework nest_listing \<noteq> Some ''Angular''"
proof -
  have h: "\<not> (\<exists>c\<in>set nest_listing. type c = ''file'' \<and> lower (path c) = ''angular.json'')"
    by code_simp
  with angular_needs_angular_json [of nest_listing]
  have "detect_framework nest_listing \<noteq> Some ''Angular''"
    by blast
  with h show ?thesis by blast
qed

text \<open>
  C6 as stated fails: the listing \<open>Angular.json\<close>, \<open>src/main.ts\<close> does not contain the
  literal path \<open>angular.json\<close>, yet Angular is returned, since the paths are lower-cased
  before the test.
\<close>

theorem angular_capital_counterexample:
  "''angular.json'' \<notin> path ` set capital_angular_listing
   \<and> detect_framework capital_angular_listing = Some ''Angular''"
  by code_simp

section \<open>Properties of the structure report\<close>

text \<open>
  C10. The structure report of the \<open>analyze_repo\<close> command has an empty list of
  recommendations for every listing: \<open>analyze_structure\<close> runs without a framework, and
  storing the detected framework afterwards leaves the recommendations as they are.
\<close>

theorem analyze_repo_no_recommendations:
  "recommendations (analyze_repo_structure all_repo_contents) = []
   \<and> recommendations (analyze_structure all_repo_contents None) = []"
  by (simp add: analyze_repo_structure_def analyze_structure_def recommend_def Let_def)

section \<open>Properties of the substring test\<close>

lemma startswith_iff: "startswith s p \<longleftrightarrow> (\<exists>t. s = p @ t)"
  by (induction s p rule: startswith.induct) auto

lemma contains_iff: "contains sub s \<longleftrightarrow> (\<exists>pre post. s = pre @ sub @ post)"
proof (induction s)
  case Nil
  then show ?case by auto
next
  case (Cons c s)
  show ?case
  proof
    assume "contains sub (c # s)"
    then consider "startswith (c # s) sub" | "contains sub s" by auto
    then show "\<exists>pre post. c # s = pre @ sub @ post"
    proof cases
      case 1
      then obtain t where "c # s = sub @ t" by (auto simp: startswith_iff)
      then have "c # s = [] @ sub @ t" by simp
      then show ?thesis by blast
    next
      case 2
      with Cons obtain pre post where "s = pre @ sub @ post" by auto
      then have "c # s = (c # pre) @ sub @ post" by simp
      then show ?thesis by blast
    qed
  next
    assume "\<exists>pre post. c # s = pre @ sub @ post"
    then obtain pre post where e: "c # s = pre @ sub @ post" by auto
    show "contains sub (c # s)"
    proof (cases pre)
      case Nil
      with e have "startswith (c # s) sub" by (auto simp: startswith_iff)
      then show ?thesis by simp
    next
      case (Cons d pre')
      with e have "s = pre' @ sub @ post" by simp
      with Cons.IH have "contains sub s" by blast
      then show ?thesis by simp
    qed
  qed
qed

lemma contains_middle: "contains (a @ b @ c) s \<Longrightarrow> contains b s"
proof -
  assume "contains (a @ b @ c) s"
  then obtain pre post where "s = pre @ (a @ b @ c) @ post" by (auto simp: contains_iff)
  then have "s = (pre @ a) @ b @ (c @ post)" by simp
  then show ?thesis unfolding contains_iff by blast
qed

section \<open>Properties of the Java analyzer\<close>

lemma java_collections:
  "collection (analyze_java_file content) ''imports'' = java_imports (split_on newline content)"
  "collection (analyze_java_file content) ''methods'' = java_methods (split_on newline content)"
  "collection (analyze_java_file content) ''unused_imports''
     = java_unused_imports (java_imports (split_on newline content)) content"
  "collection (analyze_java_file content) ''unused_methods''
     = java_unused_methods (split_on newline content)"
  by (simp_all add: analyze_java_file_def collection_def Let_def)

lemma method_referenced_iff:
  "method_referenced method_name lines \<longleftrightarrow>
     (\<exists>line\<in>set lines. contains ('' '' @ method_name @ ''('') line
        \<and> \<not> contains ('' '' @ method_name @ ''('') (first_piece CHR ''{'' line))"
  unfolding method_referenced_def using contains_middle [of "'' ''" method_name "''(''"]
  by blast

text \<open>
  C2 (amended). In the Java analyzer an extracted method is left out of
  \<open>unused_methods\<close> only if its name, between a space and an opening parenthesis, stands
  on some line that is not a definition line of the method, or stands on some line only
  after the first opening brace of the line; and it is left out whenever the name stands
  so, after the first opening brace and not before it, on a line that is not a definition
  line of the method.
\<close>

theorem java_method_use:
  "(method_name \<in> set (collection (analyze_java_file content) ''methods'')
      \<and> method_name \<notin> set (collection (analyze_java_file content) ''unused_methods'')
    \<longrightarrow> (\<exists>line\<in>set (split_on newline content).
           contains ('' '' @ method_name @ ''('') line
           \<and> (\<not> definition_line method_name line
                \<or> \<not> contains ('' '' @ method_name @ ''('') (first_piece CHR ''{'' line))))
   \<and> (method_name \<in> set (collection (analyze_java_file content) ''methods'')
      \<and> (\<exists>line\<in>set (split_on newline content).
            \<not> definition_line method_name line
            \<and> contains ('' '' @ method_name @ ''('') line
            \<and> \<not> contains ('' '' @ method_name @ ''('') (first_piece CHR ''{'' line))
    \<longrightarrow> method_name \<notin> set (collection (analyze_java_file content) ''unused_methods''))"
  by (auto simp: java_collections java_unused_methods_def method_referenced_iff)

lemma braced_lines:
  "split_on newline braced_call_source =
     [''public void foo() {'', ''}'', ''public void bar() {'', ''    if (x) { foo(); }'', ''}'']"
  by code_simp

lemma braced_methods:
  "java_methods [''public void foo() {'', ''}'', ''public void bar() {'', ''    if (x) { foo(); }'', ''}'']
    = [''foo'', ''bar'']"
  by code_simp

lemma this_lines:
  "split_on newline this_call_source =
     [''public void foo() {'', ''}'', ''public void bar() {'', ''    this.foo();'', ''}'']"
  by code_simp

lemma this_methods:
  "java_methods [''public void foo() {'', ''}'', ''public void bar() {'', ''    this.foo();'', ''}'']
    = [''foo'', ''bar'']"
  by code_simp

lemma this_unused:
  "java_unused_methods [''public void foo() {'', ''}'', ''public void bar() {'', ''    this.foo();'', ''}'']
    = [''foo'', ''bar'']"
  unfolding java_unused_methods_def this_methods by code_simp

text \<open>
  C2 as stated fails: in \<open>this_call_source\<close> the name \<open>foo\<close> is followed by an opening
  parenthesis on the fourth line, which is not a definition line, yet \<open>foo\<close> is in
  \<open>unused_methods\<close>: the name follows a dot, not a space.
\<close>

theorem java_method_use_counterexample:
  "split_on newline this_call_source ! 3 = ''    this.foo();''
   \<and> contains ''foo('' (split_on newline this_call_source ! 3)
   \<and> search method_re (split_on newline this_call_source ! 3) = None
   \<and> ''foo'' \<in> set (collection (analyze_java_file this_call_source) ''methods'')
   \<and> ''foo'' \<in> set (collection (analyze_java_file this_call_source) ''unused_methods'')"
  unfolding java_collections this_lines this_methods this_unused by code_simp

lemma braced_unused:
  "java_unused_methods [''public void foo() {'', ''}'', ''public void bar() {'', ''    if (x) { foo(); }'', ''}'']
    = [''bar'']"
  unfolding java_unused_methods_def braced_methods by code_simp

theorem java_method_use_witness:
  "''foo'' \<in> set (collection (analyze_java_file braced_call_source) ''methods'')
   \<and> ''    if (x) { foo(); }'' \<in> set (split_on newline braced_call_source)
   \<and> \<not> definition_line ''foo'' ''    if (x) { foo(); }''
   \<and> contains ('' '' @ ''foo'' @ ''('') ''    if (x) { foo(); }''
   \<and> \<not> contains ('' '' @ ''foo'' @ ''('') (first_piece CHR ''{'' ''    if (x) { foo(); }'')
   \<and> ''foo'' \<notin> set (collection (analyze_java_file braced_call_source) ''unused_methods'')"
proof -
  have m: "''foo'' \<in> set (collection (analyze_java_file braced_call_source) ''methods'')"
    unfolding java_collections braced_lines braced_methods by simp
  have l: "''    if (x) { foo(); }'' \<in> set (split_on newline braced_call_source)"
    unfolding braced_lines by simp
  have d: "\<not> definition_line ''foo'' ''    if (x) { foo(); }''"
    by code_simp
  have c: "contains ('' '' @ ''foo'' @ ''('') ''    if (x) { foo(); }''
     \<and> \<not> contains ('' '' @ ''foo'' @ ''('') (first_piece CHR ''{'' ''    if (x) { foo(); }'')"
    by code_simp
  note t = java_method_use [of "''foo''" braced_call_source]
  from t m l d c
  have u: "''foo'' \<notin> set (collection (analyze_java_file braced_call_source) ''unused_methods'')"
    by blast
  with m l d c show ?thesis by blast
qed

section \<open>Properties of the Python analyzer\<close>

lemma walk_superset: "set todo \<subseteq> set (walk todo)"
proof (induction todo rule: walk.induct)
  case 1
  then show ?case by simp
next
  case (2 n todo)
  then show ?case by auto
qed

lemma python_analysis_keys:
  "python_analysis tree content ''imports''
     = Some (Lst (concat (map import_names (walk (body tree)))))"
  "python_analysis tree content ''functions''
     = Some (Lst (concat (map function_names (walk (body tree)))))"
  "python_analysis tree content ''classes''
     = Some (Lst (concat (map class_names (walk (body tree)))))"
  "python_analysis tree content ''variables'' = Some (Lst [])"
  "python_analysis tree content ''unused_imports''
     = Some (Lst (filter (\<lambda>n. n \<notin> set (concat (map name_ids (walk (body tree)))))
                    (concat (map import_names (walk (body tree))))))"
  "python_analysis tree content ''unused_functions''
     = Some (Lst (filter (\<lambda>func_name.
                            func_name \<notin> set (concat (map referenced_names (walk (body tree))))
                            \<and> func_name \<notin> set (concat (map class_names (walk (body tree)))))
                    (remdups (concat (map function_names (body tree))))))"
  "python_analysis tree content ''unused_variables'' = Some (Lst [])"
  "python_analysis tree content ''potential_issues'' = Some (Lst (py_potential_issues content))"
  "python_analysis tree content ''suggestions''
     = Some (Lst (py_suggestions (concat (map function_names (walk (body tree)))) content))"
  "python_analysis tree content ''error'' = None"
  by (simp_all add: python_analysis_def Let_def)

lemma parse_error_finding_keys:
  "parse_error_finding message ''error'' = Some (Str message)"
  "parse_error_finding message ''potential_issues'' = Some (Lst [''Parsing error: '' @ message])"
  "dom (parse_error_finding message) = {''error'', ''potential_issues''}"
  by (auto simp: parse_error_finding_def split: if_splits)

text \<open>
  C3 (amended). When the parse of the text fails with an exception of text \<open>e\<close>,
  \<open>analyze_python_file\<close> returns the dict with exactly the keys \<open>error\<close> and
  \<open>potential_issues\<close>: the error field holds \<open>e\<close>, and so is not empty whenever \<open>e\<close> is
  not; the only potential issue is \<open>Parsing error:\<close> followed by \<open>e\<close>; each of the other
  eight collections has no element.
\<close>

theorem parse_failure_finding:
  "parse content = Inl e \<longrightarrow>
     analyze_python_file parse content = Inr (parse_error_finding e)
     \<and> parse_error_finding e ''error'' = Some (Str e)
     \<and> (e \<noteq> [] \<longrightarrow> (\<exists>t. parse_error_finding e ''error'' = Some (Str t) \<and> t \<noteq> []))
     \<and> parse_error_finding e ''potential_issues'' = Some (Lst [''Parsing error: '' @ e])
     \<and> dom (parse_error_finding e) = {''error'', ''potential_issues''}
     \<and> (\<forall>key\<in>set [''imports'', ''functions'', ''classes'', ''variables'', ''unused_imports'',
                     ''unused_functions'', ''unused_variables'', ''suggestions''].
           collection (parse_error_finding e) key = [])"
proof
  assume p: "parse content = Inl e"
  have "analyze_python_file parse content = Inr (parse_error_finding e)"
    by (simp add: analyze_python_file_def python_try_def p)
  moreover have "\<forall>key\<in>set [''imports'', ''functions'', ''classes'', ''variables'',
                     ''unused_imports'', ''unused_functions'', ''unused_variables'', ''suggestions''].
           collection (parse_error_finding e) key = []"
    by (simp add: collection_def parse_error_finding_def)
  moreover have "e \<noteq> [] \<longrightarrow> (\<exists>t. parse_error_finding e ''error'' = Some (Str t) \<and> t \<noteq> [])"
    by (simp add: parse_error_finding_keys)
  ultimately show "analyze_python_file parse content = Inr (parse_error_finding e)
     \<and> parse_error_finding e ''error'' = Some (Str e)
     \<and> (e \<noteq> [] \<longrightarrow> (\<exists>t. parse_error_finding e ''error'' = Some (Str t) \<and> t \<noteq> []))
     \<and> parse_error_finding e ''potential_issues'' = Some (Lst [''Parsing error: '' @ e])
     \<and> dom (parse_error_finding e) = {''error'', ''potential_issues''}
     \<and> (\<forall>key\<in>set [''imports'', ''functions'', ''classes'', ''variables'', ''unused_imports'',
                     ''unused_functions'', ''unused_variables'', ''suggestions''].
           collection (parse_error_finding e) key = [])"
    using parse_error_finding_keys by blast
qed

lemma sample_parse_unbalanced:
  "sample_parse unbalanced_source = Inl never_closed_message"
  by (simp add: sample_parse_def unbalanced_source_def foo_source_def)

lemma never_closed_message_not_empty: "never_closed_message \<noteq> []"
  by (simp add: never_closed_message_def)

theorem parse_failure_finding_witness:
  "sample_parse unbalanced_source = Inl never_closed_message
   \<and> never_closed_message \<noteq> []
   \<and> analyze_python_file sample_parse unbalanced_source
       = Inr (parse_error_finding never_closed_message)
   \<and> (\<exists>t. parse_error_finding never_closed_message ''error'' = Some (Str t) \<and> t \<noteq> [])
   \<and> collection (parse_error_finding never_closed_message) ''imports'' = []"
proof -
  note t = parse_failure_finding [of sample_parse unbalanced_source never_closed_message]
  from t sample_parse_unbalanced never_closed_message_not_empty
  have "analyze_python_file sample_parse unbalanced_source
          = Inr (parse_error_finding never_closed_message)
        \<and> (\<exists>t. parse_error_finding never_closed_message ''error'' = Some (Str t) \<and> t \<noteq> [])
        \<and> (\<forall>key\<in>set [''imports'', ''functions'', ''classes'', ''variables'', ''unused_imports'',
                     ''unused_functions'', ''unused_variables'', ''suggestions''].
           collection (parse_error_finding never_closed_message) key = [])"
    by blast
  then show ?thesis
    using sample_parse_unbalanced never_closed_message_not_empty by simp
qed

lemma sample_parse_deep: "sample_parse deep_source = Inl []"
proof -
  have "length deep_source = 6001"
    by (simp add: deep_source_def)
  moreover have "length foo_source = 20" "length unbalanced_source = 8"
    by (simp_all add: foo_source_def unbalanced_source_def)
  ultimately have "deep_source \<noteq> foo_source" "deep_source \<noteq> unbalanced_source"
    by auto
  then show ?thesis
    by (simp add: sample_parse_def)
qed

text \<open>
  C3 as stated fails: on \<open>deep_source\<close> the parse fails with a \<open>MemoryError\<close> whose text is
  empty, and the error field of the returned dict is the empty string.
\<close>

theorem empty_error_counterexample:
  "sample_parse deep_source = Inl []
   \<and> analyze_python_file sample_parse deep_source = Inr (parse_error_finding [])
   \<and> parse_error_finding [] ''error'' = Some (Str [])
   \<and> parse_error_finding [] ''potential_issues'' = Some (Lst [''Parsing error: ''])"
  by (simp add: analyze_python_file_def python_try_def sample_parse_deep
        parse_error_finding_keys)

text \<open>
  C4. For every parser and text \<open>analyze_python_file\<close> returns a dict and no exception
  leaves it; when the text parses, the dict is the analysis of the tree, all nine
  collection keys are present with a list, and there is no error field.
\<close>

theorem analyze_python_file_returns:
  "(\<exists>analysis. analyze_python_file parse content = Inr analysis)
   \<and> (parse content = Inr tree \<longrightarrow>
        analyze_python_file parse content = Inr (python_analysis tree content)
        \<and> (\<forall>key\<in>set python_keys. \<exists>xs. python_analysis tree content key = Some (Lst xs))
        \<and> python_analysis tree content ''error'' = None)"
proof (intro conjI impI)
  show "\<exists>analysis. analyze_python_file parse content = Inr analysis"
    by (cases "parse content") (simp_all add: analyze_python_file_def python_try_def)
next
  assume "parse content = Inr tree"
  then show "analyze_python_file parse content = Inr (python_analysis tree content)"
    by (simp add: analyze_python_file_def python_try_def)
next
  show "\<forall>key\<in>set python_keys. \<exists>xs. python_analysis tree content key = Some (Lst xs)"
    by (simp add: python_keys_def python_analysis_keys)
next
  show "python_analysis tree content ''error'' = None"
    by (rule python_analysis_keys)
qed

lemma sample_parse_foo: "sample_parse foo_source = Inr foo_module"
  by (simp add: sample_parse_def)

theorem analyze_python_file_returns_witness:
  "sample_parse foo_source = Inr foo_module
   \<and> analyze_python_file sample_parse foo_source = Inr (python_analysis foo_module foo_source)
   \<and> (\<exists>xs. python_analysis foo_module foo_source ''unused_functions'' = Some (Lst xs))
   \<and> python_analysis foo_module foo_source ''error'' = None"
proof -
  note t = analyze_python_file_returns [of sample_parse foo_source foo_module]
  have k: "''unused_functions'' \<in> set python_keys"
    by (simp add: python_keys_def)
  from t sample_parse_foo
  have r: "analyze_python_file sample_parse foo_source = Inr (python_analysis foo_module foo_source)"
    and a: "\<forall>key\<in>set python_keys. \<exists>xs. python_analysis foo_module foo_source key = Some (Lst xs)"
    and e: "python_analysis foo_module foo_source ''error'' = None"
    by blast+
  from a k have "\<exists>xs. python_analysis foo_module foo_source ''unused_functions'' = Some (Lst xs)"
    by blast
  with sample_parse_foo r e show ?thesis by blast
qed

lemma walk_foo: "walk (body foo_module) = [FunctionDef ''foo'' [Other [], Other []], Other [], Other []]"
  by (simp add: foo_module_def)

text \<open>
  C7. On the text \<open>def foo():\<close>, newline, four spaces, \<open>pass\<close>, newline, whose tree is
  \<open>foo_module\<close>, the analyzer returns a dict with \<open>functions\<close> equal to \<open>[foo]\<close>,
  \<open>unused_functions\<close> equal to \<open>[foo]\<close>, no unused import and no error field.
\<close>

theorem foo_scenario:
  "parse foo_source = Inr foo_module \<longrightarrow>
     (\<exists>analysis. analyze_python_file parse foo_source = Inr analysis
        \<and> analysis ''functions'' = Some (Lst [''foo''])
        \<and> analysis ''unused_functions'' = Some (Lst [''foo''])
        \<and> analysis ''unused_imports'' = Some (Lst [])
        \<and> analysis ''error'' = None)"
proof
  assume "parse foo_source = Inr foo_module"
  then have "analyze_python_file parse foo_source = Inr (python_analysis foo_module foo_source)"
    by (simp add: analyze_python_file_def python_try_def)
  moreover have "python_analysis foo_module foo_source ''functions'' = Some (Lst [''foo''])"
    "python_analysis foo_module foo_source ''unused_imports'' = Some (Lst [])"
    "python_analysis foo_module foo_source ''error'' = None"
    by (simp_all add: python_analysis_keys walk_foo)
  moreover have "python_analysis foo_module foo_source ''unused_functions'' = Some (Lst [''foo''])"
    by (simp add: python_analysis_keys walk_foo) (simp add: foo_module_def)
  ultimately show "\<exists>analysis. analyze_python_file parse foo_source = Inr analysis
        \<and> analysis ''functions'' = Some (Lst [''foo''])
        \<and> analysis ''unused_functions'' = Some (Lst [''foo''])
        \<and> analysis ''unused_imports'' = Some (Lst [])
        \<and> analysis ''error'' = None"
    by blast
qed

theorem foo_scenario_witness:
  "sample_parse foo_source = Inr foo_module
   \<and> (\<exists>analysis. analyze_python_file sample_parse foo_source = Inr analysis
        \<and> analysis ''functions'' = Some (Lst [''foo''])
        \<and> analysis ''unused_functions'' = Some (Lst [''foo''])
        \<and> analysis ''unused_imports'' = Some (Lst [])
        \<and> analysis ''error'' = None)"
  using foo_scenario [of sample_parse] sample_parse_foo by blast

section \<open>Unused names and defined names\<close>

lemma python_collections:
  "collection (python_analysis tree content) ''imports''
     = concat (map import_names (walk (body tree)))"
  "collection (python_analysis tree content) ''functions''
     = concat (map function_names (walk (body tree)))"
  "collection (python_analysis tree content) ''variables'' = []"
  "collection (python_analysis tree content) ''unused_imports''
     = filter (\<lambda>n. n \<notin> set (concat (map name_ids (walk (body tree)))))
         (concat (map import_names (walk (body tree))))"
  "collection (python_analysis tree content) ''unused_functions''
     = filter (\<lambda>func_name.
                 func_name \<notin> set (concat (map referenced_names (walk (body tree))))
                 \<and> func_name \<notin> set (concat (map class_names (walk (body tree)))))
         (remdups (concat (map function_names (body tree))))"
  "collection (python_analysis tree content) ''unused_variables'' = []"
  "collection (python_analysis tree content) ''suggestions''
     = py_suggestions (concat (map function_names (walk (body tree)))) content"
  by (simp_all add: python_analysis_def collection_def Let_def)

lemma parse_error_collections:
  "collection (parse_error_finding e) ''unused_imports'' = []"
  "collection (parse_error_finding e) ''unused_functions'' = []"
  "collection (parse_error_finding e) ''unused_variables'' = []"
  "collection (parse_error_finding e) ''suggestions'' = []"
  by (simp_all add: parse_error_finding_def collection_def)

lemma js_collections:
  "collection (analyze_javascript_file content language) ''functions'' = js_functions content"
  "collection (analyze_javascript_file content language) ''variables'' = js_variables content"
  "collection (analyze_javascript_file content language) ''unused_functions''
     = js_unused_functions content"
  "collection (analyze_javascript_file content language) ''unused_variables''
     = js_unused_variables content"
  "collection (analyze_javascript_file content language) ''suggestions''
     = js_suggestions content language"
  by (simp_all add: analyze_javascript_file_def collection_def)

lemma java_suggestions_collection:
  "collection (analyze_java_file content) ''suggestions''
     = java_suggestions content (split_on newline content)"
  by (simp add: analyze_java_file_def collection_def Let_def)

lemma analyze_python_file_cases:
  "analyze_python_file parse content = Inr analysis \<Longrightarrow>
     (\<exists>e. analysis = parse_error_finding e) \<or> (\<exists>tree. analysis = python_analysis tree content)"
  by (cases "parse content") (auto simp: analyze_python_file_def python_try_def)

lemma top_level_functions_walked:
  "set (concat (map function_names (body tree)))
     \<subseteq> set (concat (map function_names (walk (body tree))))"
  using walk_superset [of "body tree"] by auto

text \<open>
  C1 (amended). In a dict returned by the Python analyzer the unused imports, functions
  and variables are among the imports, functions and variables; in the one of the Java
  analyzer the unused methods are among the methods, and \<open>unused_imports\<close> holds nothing
  but the advisory text; in the one of the JavaScript/TypeScript analyzer the unused
  functions and variables are among the functions and variables.
\<close>

theorem unused_within_defined:
  "(analyze_python_file parse content = Inr analysis \<longrightarrow>
      set (collection analysis ''unused_imports'') \<subseteq> set (collection analysis ''imports'')
      \<and> set (collection analysis ''unused_functions'') \<subseteq> set (collection analysis ''functions'')
      \<and> set (collection analysis ''unused_variables'') \<subseteq> set (collection analysis ''variables''))
   \<and> set (collection (analyze_java_file content) ''unused_methods'')
       \<subseteq> set (collection (analyze_java_file content) ''methods'')
   \<and> set (collection (analyze_java_file content) ''unused_imports'') \<subseteq> {unused_imports_advisory}
   \<and> set (collection (analyze_javascript_file content language) ''unused_functions'')
       \<subseteq> set (collection (analyze_javascript_file content language) ''functions'')
   \<and> set (collection (analyze_javascript_file content language) ''unused_variables'')
       \<subseteq> set (collection (analyze_javascript_file content language) ''variables'')"
proof (intro conjI impI)
  assume a: "analyze_python_file parse content = Inr analysis"
  from analyze_python_file_cases [OF a]
  show "set (collection analysis ''unused_imports'') \<subseteq> set (collection analysis ''imports'')"
    by (auto simp: python_collections parse_error_collections)
  have f: "set (filter P (remdups xs)) \<subseteq> set xs" for P and xs :: "string list"
    by auto
  have "set (collection (python_analysis tree content) ''unused_functions'')
          \<subseteq> set (collection (python_analysis tree content) ''functions'')" for tree
    unfolding python_collections
    using f top_level_functions_walked [of tree] by (rule order_trans)
  with analyze_python_file_cases [OF a]
  show "set (collection analysis ''unused_functions'') \<subseteq> set (collection analysis ''functions'')"
    by (auto simp: parse_error_collections)
  from analyze_python_file_cases [OF a]
  show "set (collection analysis ''unused_variables'') \<subseteq> set (collection analysis ''variables'')"
    by (auto simp: python_collections parse_error_collections)
next
  show "set (collection (analyze_java_file content) ''unused_methods'')
       \<subseteq> set (collection (analyze_java_file content) ''methods'')"
    by (auto simp: java_collections java_unused_methods_def)
next
  show "set (collection (analyze_java_file content) ''unused_imports'') \<subseteq> {unused_imports_advisory}"
    by (auto simp: java_collections java_unused_imports_def)
next
  show "set (collection (analyze_javascript_file content language) ''unused_functions'')
       \<subseteq> set (collection (analyze_javascript_file content language) ''functions'')"
    by (auto simp: js_collections js_unused_functions_def)
next
  show "set (collection (analyze_javascript_file content language) ''unused_variables'')
       \<subseteq> set (collection (analyze_javascript_file content language) ''variables'')"
    by (auto simp: js_collections js_unused_variables_def)
qed

theorem unused_within_defined_witness:
  "analyze_python_file sample_parse foo_source = Inr (python_analysis foo_module foo_source)
   \<and> set (collection (python_analysis foo_module foo_source) ''unused_functions'')
       \<subseteq> set (collection (python_analysis foo_module foo_source) ''functions'')"
proof -
  have a: "analyze_python_file sample_parse foo_source = Inr (python_analysis foo_module foo_source)"
    by (simp add: analyze_python_file_def python_try_def sample_parse_foo)
  with unused_within_defined
         [of sample_parse foo_source "python_analysis foo_module foo_source"]
  show ?thesis by blast
qed

lemma wildcard_imports:
  "java_imports (split_on newline wildcard_source) = [''java.util.*'']"
  by code_simp

lemma wildcard_unused_imports:
  "java_unused_imports [''java.util.*''] wildcard_source = [unused_imports_advisory]"
  by code_simp

text \<open>
  C1 as stated fails for the Java analyzer: on \<open>import java.util.*;\<close> the list
  \<open>unused_imports\<close> holds the advisory text, which is not an element of \<open>imports\<close>.
\<close>

theorem java_advisory_counterexample:
  "collection (analyze_java_file wildcard_source) ''imports'' = [''java.util.*'']
   \<and> collection (analyze_java_file wildcard_source) ''unused_imports''
       = [''Some imports might be unused (manual verification recommended)'']
   \<and> \<not> set (collection (analyze_java_file wildcard_source) ''unused_imports'')
         \<subseteq> set (collection (analyze_java_file wildcard_source) ''imports'')"
  unfolding java_collections wildcard_imports wildcard_unused_imports
  by (simp add: unused_imports_advisory_def)

section \<open>Properties of the analysis commands\<close>

lemma any_not_other_suggestion:
  "any_suggestion \<notin> set (py_suggestions functions content)"
  "any_suggestion \<notin> set (java_suggestions content lines)"
  by (simp_all add: any_suggestion_def py_suggestions_def java_suggestions_def)

lemma any_in_js_suggestions:
  "any_suggestion \<in> set (js_suggestions content language)
     \<longleftrightarrow> contains ''any'' content \<and> language = ''typescript''"
  by (simp add: any_suggestion_def js_suggestions_def)

lemma analysis_for_no_any:
  assumes "analysis_for parse file_ext language content = Inr analysis"
  shows "any_suggestion \<notin> set (collection analysis ''suggestions'')"
proof (cases "file_ext = ''.py''")
  case True
  with assms have "analyze_python_file parse content = Inr analysis"
    by (simp add: analysis_for_def)
  from analyze_python_file_cases [OF this] show ?thesis
    by (auto simp: python_collections parse_error_collections any_not_other_suggestion)
next
  case False
  note not_py = this
  show ?thesis
  proof (cases "file_ext = ''.java''")
    case True
    with assms not_py have "analysis = analyze_java_file content"
      by (simp add: analysis_for_def)
    then show ?thesis
      by (simp add: java_suggestions_collection any_not_other_suggestion)
  next
    case False
    note not_java = this
    show ?thesis
    proof (cases "file_ext \<in> set [''.js'', ''.ts'', ''.jsx'', ''.tsx'']")
      case True
      with assms not_py not_java
      have "analysis = analyze_javascript_file content ''javascript''"
        by (simp add: analysis_for_def)
      then show ?thesis
        by (simp add: js_collections any_in_js_suggestions)
    next
      case False
      with assms not_py not_java
      have "analysis = map_of [(''info'', Str (''Basic analysis for '' @ language))]"
        by (simp add: analysis_for_def)
      then show ?thesis
        by (simp add: collection_def)
    qed
  qed
qed

text \<open>
  C9. Whatever the extension and the content, an analysis produced by \<open>analyze_repo\<close> or
  by \<open>upload\<close> does not hold the suggestion about \<open>any\<close>: \<open>analyze_javascript_file\<close>
  emits it exactly when the content contains \<open>any\<close> and its parameter \<open>language\<close> is
  \<open>'typescript'\<close>, and both commands leave the parameter at its default.
\<close>

theorem any_suggestion_never_emitted:
  "(analyze_repo_file parse file_ext content = Inr analysis
      \<longrightarrow> any_suggestion \<notin> set (collection analysis ''suggestions''))
   \<and> (upload_analysis parse file_ext content = Inr analysis
      \<longrightarrow> any_suggestion \<notin> set (collection analysis ''suggestions''))
   \<and> (any_suggestion \<in> set (collection (analyze_javascript_file content language) ''suggestions'')
      \<longleftrightarrow> contains ''any'' content \<and> language = ''typescript'')"
proof (intro conjI impI)
  assume "analyze_repo_file parse file_ext content = Inr analysis"
  then show "any_suggestion \<notin> set (collection analysis ''suggestions'')"
    by (auto simp: analyze_repo_file_def split: option.splits dest: analysis_for_no_any)
next
  assume "upload_analysis parse file_ext content = Inr analysis"
  then show "any_suggestion \<notin> set (collection analysis ''suggestions'')"
    by (auto simp: upload_analysis_def split: option.splits if_splits dest: analysis_for_no_any)
next
  show "any_suggestion \<in> set (collection (analyze_javascript_file content language) ''suggestions'')
      \<longleftrightarrow> contains ''any'' content \<and> language = ''typescript''"
    by (simp add: js_collections any_in_js_suggestions)
qed

lemma typescript_dispatch:
  "analyze_repo_file sample_parse ''.ts'' any_source
     = Inr (analyze_javascript_file any_source ''javascript'')"
  "upload_analysis sample_parse ''.ts'' any_source
     = Inr (analyze_javascript_file any_source ''javascript'')"
  by (simp_all add: analyze_repo_file_def upload_analysis_def analysis_for_def
        supported_extensions_def)

lemma any_source_contains: "contains ''any'' any_source"
  by code_simp

theorem any_suggestion_never_emitted_witness:
  "analyze_repo_file sample_parse ''.ts'' any_source
     = Inr (analyze_javascript_file any_source ''javascript'')
   \<and> upload_analysis sample_parse ''.ts'' any_source
     = Inr (analyze_javascript_file any_source ''javascript'')
   \<and> any_suggestion
       \<notin> set (collection (analyze_javascript_file any_source ''javascript'') ''suggestions'')
   \<and> contains ''any'' any_source
   \<and> any_suggestion
       \<in> set (collection (analyze_javascript_file any_source ''typescript'') ''suggestions'')"
proof -
  from any_suggestion_never_emitted
         [of sample_parse "''.ts''" any_source
             "analyze_javascript_file any_source ''javascript''" "''typescript''"]
       typescript_dispatch any_source_contains
  show ?thesis by blast
qed

end
